theory Spec2Isabelle
  imports Main
begin

section \<open>Go library functions the program calls\<close>

text \<open>
  Go strings are byte sequences; a \<^typ>\<open>string\<close> is the list of those bytes.
  The functions below belong to the Go standard library (packages strings, strconv,
  fmt, path/filepath with the Unix separator); they are written out on bytes so that
  the program's functions can be evaluated.
\<close>

type_synonym time = int

text \<open>\<^verbatim>\<open>time.Time.Before\<close>: the instant \<open>t\<close> is strictly earlier than \<open>u\<close>.\<close>

definition Before :: "time \<Rightarrow> time \<Rightarrow> bool" where
  "Before t u = (t < u)"

definition HasPrefix :: "string \<Rightarrow> string \<Rightarrow> bool" where
  "HasPrefix s p = (take (length p) s = p)"

definition HasSuffix :: "string \<Rightarrow> string \<Rightarrow> bool" where
  "HasSuffix s suffix =
     (length suffix \<le> length s \<and> drop (length s - length suffix) s = suffix)"

definition TrimSuffix :: "string \<Rightarrow> string \<Rightarrow> string" where
  "TrimSuffix s suffix =
     (if HasSuffix s suffix then take (length s - length suffix) s else s)"

text \<open>
  \<^verbatim>\<open>strings.ToLower\<close> on the ASCII letters. Bytes outside \<open>A..Z\<close> are left as they
  are (Go also lower-cases letters beyond ASCII; object keys here are ASCII file names).
\<close>

definition lower_byte :: "char \<Rightarrow> char" where
  "lower_byte c =
     (case map_of (zip ''ABCDEFGHIJKLMNOPQRSTUVWXYZ'' ''abcdefghijklmnopqrstuvwxyz'') c of
        Some l \<Rightarrow> l
      | None \<Rightarrow> c)"

definition ToLower :: "string \<Rightarrow> string" where
  "ToLower s = map lower_byte s"

text \<open>
  \<^verbatim>\<open>strings.ReplaceAll(s, old, new)\<close> and \<^verbatim>\<open>strings.Split(s, sep)\<close> for a non-empty
  \<open>old\<close> and \<open>sep\<close>, scanning left to right without overlap. The program passes the
  constants \<open>" "\<close> and \<open>"-"\<close>; the empty pattern (which Go treats rune by rune) is
  never passed and is not given a meaning here: the string comes back unchanged,
  respectively unsplit.
\<close>

function ReplaceAll :: "string \<Rightarrow> string \<Rightarrow> string \<Rightarrow> string" where
  "ReplaceAll s old new =
     (if s = [] \<or> old = [] then s
      else if HasPrefix s old then new @ ReplaceAll (drop (length old) s) old new
      else hd s # ReplaceAll (tl s) old new)"
  by pat_completeness auto
termination
  by (relation "measure (\<lambda>(s, old, new). length s)") auto

function SplitFrom :: "string \<Rightarrow> string \<Rightarrow> string \<Rightarrow> string list" where
  "SplitFrom cur s sep =
     (if s = [] \<or> sep = [] then [cur @ s]
      else if HasPrefix s sep then cur # SplitFrom [] (drop (length sep) s) sep
      else SplitFrom (cur @ [hd s]) (tl s) sep)"
  by pat_completeness auto
termination
  by (relation "measure (\<lambda>(cur, s, sep). length s)") auto

definition Split :: "string \<Rightarrow> string \<Rightarrow> string list" where
  "Split s sep = SplitFrom [] s sep"

text \<open>\<^verbatim>\<open>strings.Join(elems, sep)\<close>.\<close>

fun JoinStrings :: "string list \<Rightarrow> string \<Rightarrow> string" where
  "JoinStrings [] sep = []"
| "JoinStrings [e] sep = e"
| "JoinStrings (e # es) sep = e @ sep @ JoinStrings es sep"

text \<open>Decimal digits.\<close>

definition digit_char :: "nat \<Rightarrow> char" where
  "digit_char d = ''0123456789'' ! d"

definition digit_val :: "char \<Rightarrow> nat option" where
  "digit_val c = map_of (zip ''0123456789'' [0, 1, 2, 3, 4, 5, 6, 7, 8, 9]) c"

text \<open>
  The verb \<^verbatim>\<open>%d\<close> of \<^verbatim>\<open>fmt.Sprintf\<close> (and \<^verbatim>\<open>fmt.Sprint\<close>) on an unsigned and on a
  signed integer: the decimal digits, most significant first, no leading zero, a minus
  sign for a negative number.
\<close>

function FormatUint :: "nat \<Rightarrow> string" where
  "FormatUint n =
     (if n < 10 then [digit_char n] else FormatUint (n div 10) @ [digit_char (n mod 10)])"
  by pat_completeness auto
termination
  by (relation "measure (\<lambda>n. n)") auto

definition FormatInt :: "int \<Rightarrow> string" where
  "FormatInt i = (if i < 0 then CHR ''-'' # FormatUint (nat (- i)) else FormatUint (nat i))"

text \<open>The value of a string of decimal digits, \<open>None\<close> when a byte is not a digit.\<close>

fun digits_value :: "nat \<Rightarrow> string \<Rightarrow> nat option" where
  "digits_value acc [] = Some acc"
| "digits_value acc (c # cs) =
     (case digit_val c of
        None \<Rightarrow> None
      | Some d \<Rightarrow> digits_value (10 * acc + d) cs)"

text \<open>
  \<^verbatim>\<open>strconv.Atoi\<close> for the 64-bit \<^verbatim>\<open>int\<close>: an optional sign, then at least one decimal
  digit and nothing else; a value outside the range of \<^verbatim>\<open>int\<close> is an error. \<open>None\<close> is
  the error return.
\<close>

definition Atoi :: "string \<Rightarrow> int option" where
  "Atoi s =
     (let neg = (s \<noteq> [] \<and> hd s = CHR ''-'');
          ds = (if s \<noteq> [] \<and> (hd s = CHR ''+'' \<or> hd s = CHR ''-'') then tl s else s)
      in if ds = [] then None
         else (case digits_value 0 ds of
                 None \<Rightarrow> None
               | Some v \<Rightarrow>
                   (let r = (if neg then - int v else int v)
                    in if r < - (2 ^ 63) \<or> 2 ^ 63 - 1 < r then None else Some r)))"

text \<open>
  \<^verbatim>\<open>filepath.Base\<close>: the last element of the path; trailing slashes are dropped first;
  \<open>"."\<close> for the empty path and \<open>"/"\<close> for a path of slashes only.
\<close>

definition Base :: "string \<Rightarrow> string" where
  "Base path =
     (if path = [] then ''.''
      else (let p = rev (dropWhile (\<lambda>c. c = CHR ''/'') (rev path));
                e = rev (takeWhile (\<lambda>c. c \<noteq> CHR ''/'') (rev p))
            in if e = [] then ''/'' else e))"

text \<open>
  \<^verbatim>\<open>filepath.Ext\<close>: the suffix of the last element beginning at its final dot, empty
  when the last element has no dot.
\<close>

definition Ext :: "string \<Rightarrow> string" where
  "Ext path =
     (let e = rev (takeWhile (\<lambda>c. c \<noteq> CHR ''/'') (rev path))
      in if CHR ''.'' \<in> set e
         then CHR ''.'' # rev (takeWhile (\<lambda>c. c \<noteq> CHR ''.'') (rev e))
         else [])"

text \<open>
  \<^verbatim>\<open>filepath.Clean\<close> and \<^verbatim>\<open>filepath.Join\<close>: \<open>Join\<close> drops leading empty elements, joins
  the rest with a slash and cleans the result; \<open>Clean\<close> removes empty and \<open>.\<close>
  elements, resolves an inner \<open>..\<close> against the element before it, drops a \<open>..\<close>
  at the start of a rooted path, and returns \<open>"."\<close> for an empty result.
\<close>

definition clean_step :: "bool \<Rightarrow> string list \<Rightarrow> string \<Rightarrow> string list" where
  "clean_step rooted st c =
     (if c = ''..'' then
        (if st \<noteq> [] \<and> last st \<noteq> ''..'' then butlast st
         else if rooted then st
         else st @ [c])
      else st @ [c])"

definition Clean :: "string \<Rightarrow> string" where
  "Clean path =
     (let rooted = (path \<noteq> [] \<and> hd path = CHR ''/'');
          comps = filter (\<lambda>c. c \<noteq> [] \<and> c \<noteq> ''.'') (Split path ''/'');
          st = foldl (clean_step rooted) [] comps;
          out = (if rooted then ''/'' else []) @ JoinStrings st ''/''
      in if out = [] then ''.'' else out)"

definition Join :: "string list \<Rightarrow> string" where
  "Join elem =
     (case dropWhile (\<lambda>e. e = []) elem of
        [] \<Rightarrow> []
      | es \<Rightarrow> Clean (JoinStrings es ''/''))"

section \<open>Data model\<close>

text \<open>
  A Go \<^verbatim>\<open>error\<close> value; \<^verbatim>\<open>nil\<close> is \<open>None\<close> of \<open>error option\<close>, and a call returning
  \<^verbatim>\<open>(v, err)\<close> is a value of \<open>error + 'a\<close>.
\<close>

datatype error = Err string

text \<open>
  The models of package \<^verbatim>\<open>models\<close>, with the fields the services read. The identifier
  comes from the embedded \<^verbatim>\<open>BaseModel\<close> and is an unsigned integer (\<^verbatim>\<open>uint\<close>); the
  program only prints and compares identifiers, so they are natural numbers here.
\<close>

record BaseModel =
  ID :: nat

record Album = BaseModel +
  Name :: string
  PosterImagePath :: string
  ClientID :: nat

record Client = BaseModel +
  Name :: string
  Email :: string

text \<open>
  What the object store returns: the metadata of \<^verbatim>\<open>StatObject\<close>, the entries of a
  listing, the response of \<^verbatim>\<open>Get\<close>.
\<close>

record ObjectMetadata =
  LastModified :: time

record Object = ObjectMetadata +
  Key :: string
  Url :: string

record GetObjectResponse =
  Body :: string
  Size :: int

text \<open>The values of the template data handed to the notification sender.\<close>

datatype any = AnyString string | AnyInt int

text \<open>
  The collaborators (object store, catalog, notification sender, the zip writer's
  output stream, the clock) are outside the program. A \<open>World\<close> fixes the answer each
  of them gives to each request; the program's functions return, next to their result,
  the requests they issued, in order. \<open>Time_AddDate\<close> is \<^verbatim>\<open>time.Time.AddDate\<close>, which moves
  an instant by years, months and days of the calendar of its location.
\<close>

record World =
  S3_StatObject :: "string \<Rightarrow> string \<Rightarrow> error + ObjectMetadata option"
  S3_List :: "string \<Rightarrow> string \<Rightarrow> error + Object list"
  S3_Get :: "string \<Rightarrow> string \<Rightarrow> error + GetObjectResponse"
  S3_PutStream :: "string \<Rightarrow> string \<Rightarrow> error option"
  S3_Delete :: "string \<Rightarrow> string list \<Rightarrow> error option"
  S3_BucketExists :: "string \<Rightarrow> error + bool"
  S3_CreateBucket :: "string \<Rightarrow> error option"
  Clients_GetAll :: "error + Client list"
  Albums_GetAlbumList :: "nat \<Rightarrow> error + Album list"
  Email_Send :: "string \<Rightarrow> string \<Rightarrow> (string \<times> any) list \<Rightarrow> error option"
  Zip_Create :: "string \<Rightarrow> error option"
  Io_Copy :: "string \<Rightarrow> string \<Rightarrow> string \<times> error option"
  Zip_Close :: "error option"
  Stream_Close :: "error option"
  Stream_Wait :: "error option"
  Time_Now :: time
  Time_AddDate :: "time \<Rightarrow> int \<Rightarrow> int \<Rightarrow> int \<Rightarrow> time"

datatype event =
    EvStatObject string string
  | EvList string string
  | EvGet string string
  | EvPutStream string string string
  | EvDelete string "string list"
  | EvGetAll
  | EvGetAlbumList nat
  | EvSendEmail string string string string string "(string \<times> any) list"
  | EvZipCreate string
  | EvCopy string
  | EvBodyClose string
  | EvZipClose
  | EvStreamClose
  | EvStreamWait
  | EvGoProcessZip string string Album Client
  | EvLogError string

section \<open>The notification sender (EmailService.go)\<close>

text \<open>
  \<^verbatim>\<open>SendEmail\<close> adds the recipient's name to the template data and hands the mail to
  the sending service, whose answer it returns.
\<close>

definition SendEmail ::
  "World \<Rightarrow> string \<Rightarrow> string \<Rightarrow> string \<Rightarrow> string \<Rightarrow> string \<Rightarrow> (string \<times> any) list
     \<Rightarrow> error option \<times> event list" where
  "SendEmail w apiKey toName toEmail fromName fromEmail data =
     (Email_Send w apiKey toEmail (data @ [(''toName'', AnyString toName)]),
      [EvSendEmail apiKey toName toEmail fromName fromEmail data])"

section \<open>The archive service (ZipService.go)\<close>

text \<open>
  The configuration, without the handles of the collaborators. \<^verbatim>\<open>ExpirationDays\<close> is a Go
  \<^verbatim>\<open>int\<close>; it is compared with zero and, once positive, negated, neither of which can
  overflow, so it is an integer here.
\<close>

record ZipServiceConfig =
  BaseDownloadURL :: string
  Bucket :: string
  ClientPhotoFolder :: string
  ExpirationDays :: int
  EmailApiKey :: string
  FromName :: string
  FromEmail :: string

text \<open>
  The run-time objects the service points to: channels (closed or not), tickers
  (stopped or not), wait groups (their counters), each addressed by its index, and the
  cleanup goroutines that are running.
\<close>

record ZipService =
  config :: ZipServiceConfig
  cleanupTicker :: "nat option"
  stopCleanup :: nat
  wg :: nat

record Runtime =
  chans :: "bool list"
  tickers :: "bool list"
  waitgroups :: "nat list"
  goroutines :: "ZipService list"

datatype 'a outcome = Returns 'a | Panics | Blocks

definition NewZipService :: "ZipServiceConfig \<Rightarrow> Runtime \<Rightarrow> ZipService \<times> Runtime" where
  "NewZipService cfg rt =
     (let cfg' = (if ExpirationDays cfg \<le> 0 then cfg\<lparr>ExpirationDays := 7\<rparr> else cfg)
      in (\<lparr>config = cfg', cleanupTicker = None,
           stopCleanup = length (chans rt), wg = length (waitgroups rt)\<rparr>,
          rt\<lparr>chans := chans rt @ [False], waitgroups := waitgroups rt @ [0]\<rparr>))"

definition notification_data ::
  "ZipService \<Rightarrow> string \<Rightarrow> Album \<Rightarrow> Client \<Rightarrow> (string \<times> any) list" where
  "notification_data s url album client =
     [(''downloadURL'', AnyString url),
      (''name'', AnyString (Client.Name client)),
      (''albumName'', AnyString (Album.Name album)),
      (''expirationDays'', AnyInt (ExpirationDays (config s)))]"

text \<open>The closure \<^verbatim>\<open>addFile\<close> of \<^verbatim>\<open>processZip\<close>; the zip writer is the list of its entries.\<close>

definition addFile ::
  "ZipService \<Rightarrow> World \<Rightarrow> (string \<times> string) list \<Rightarrow> string
     \<Rightarrow> error option \<times> event list \<times> (string \<times> string) list" where
  "addFile s w zipWriter key =
     (let imageName = Base key
      in case S3_Get w (Bucket (config s)) key of
           Inl e \<Rightarrow> (Some e, [EvGet (Bucket (config s)) key], zipWriter)
         | Inr src \<Rightarrow>
             (case Zip_Create w imageName of
                Some e \<Rightarrow>
                  (Some e, [EvGet (Bucket (config s)) key, EvZipCreate imageName], zipWriter)
              | None \<Rightarrow>
                  (let (written, err) = Io_Copy w imageName (Body src)
                   in (err,
                       [EvGet (Bucket (config s)) key, EvZipCreate imageName,
                        EvCopy imageName, EvBodyClose key],
                       zipWriter @ [(imageName, written)]))))"

text \<open>The loop of \<^verbatim>\<open>processZip\<close> over the listing.\<close>

fun addFiles ::
  "ZipService \<Rightarrow> World \<Rightarrow> (string \<times> string) list \<Rightarrow> Object list
     \<Rightarrow> event list \<times> (string \<times> string) list" where
  "addFiles s w zipWriter [] = ([], zipWriter)"
| "addFiles s w zipWriter (img # imgs) =
     (let (err, evs, zipWriter') = addFile s w zipWriter (Key img);
          logged = (case err of
                      Some e \<Rightarrow> [EvLogError ''failed to add image to zip'']
                    | None \<Rightarrow> []);
          (evs', zipWriter'') = addFiles s w zipWriter' imgs
      in (evs @ logged @ evs', zipWriter''))"

definition processZip ::
  "ZipService \<Rightarrow> World \<Rightarrow> string \<Rightarrow> string \<Rightarrow> Album \<Rightarrow> Client
     \<Rightarrow> event list \<times> (string \<times> string) list" where
  "processZip s w zipKey zipFilename album client =
     (let originalsKey = Join [ClientPhotoFolder (config s), FormatUint (ClientID album),
                               FormatUint (ID album), ''originals''];
          bucket = Bucket (config s);
          open_stream = [EvPutStream bucket zipKey ''application/zip'']
      in case S3_PutStream w bucket zipKey of
           Some e \<Rightarrow> (open_stream @ [EvLogError ''failed to setup s3 stream''], [])
         | None \<Rightarrow>
             (case S3_List w bucket originalsKey of
                Inl e \<Rightarrow>
                  (open_stream @ [EvList bucket originalsKey,
                                  EvLogError ''error listing album images''], [])
              | Inr objects \<Rightarrow>
                  (let (added, zipWriter) = addFiles s w [] objects;
                       evs = open_stream @ [EvList bucket originalsKey] @ added @ [EvZipClose]
                   in if Zip_Close w \<noteq> None
                      then (evs @ [EvLogError ''failed to close zip writer''], zipWriter)
                      else if Stream_Close w \<noteq> None
                      then (evs @ [EvStreamClose,
                                   EvLogError ''failed to close s3 stream writer''], zipWriter)
                      else if Stream_Wait w \<noteq> None
                      then (evs @ [EvStreamClose, EvStreamWait,
                                   EvLogError ''failed to wait for s3 stream''], zipWriter)
                      else
                        (let url = BaseDownloadURL (config s) @ ''/client/downloads/''
                                     @ zipFilename;
                             (err, sent) = SendEmail w (EmailApiKey (config s))
                                             (Client.Name client) (Client.Email client)
                                             (FromName (config s)) (FromEmail (config s))
                                             (notification_data s url album client)
                         in (evs @ [EvStreamClose, EvStreamWait] @ sent @
                               (case err of
                                  Some e \<Rightarrow> [EvLogError ''failed to send email notification'']
                                | None \<Rightarrow> []),
                             zipWriter)))))"

text \<open>
  The local values \<^verbatim>\<open>jobID\<close>, \<^verbatim>\<open>zipFilename\<close>, \<^verbatim>\<open>zipKey\<close> and \<^verbatim>\<open>downloadURL\<close> of
  \<^verbatim>\<open>CreateZipAsync\<close>.
\<close>

definition jobID :: "Album \<Rightarrow> string" where
  "jobID album = ReplaceAll (Album.Name album) '' '' ''-'' @ ''-'' @ FormatUint (ID album)"

definition zipFilename :: "Album \<Rightarrow> string" where
  "zipFilename album = jobID album @ ''.zip''"

definition zipKey :: "ZipService \<Rightarrow> Album \<Rightarrow> Client \<Rightarrow> string" where
  "zipKey s album client =
     Join [ClientPhotoFolder (config s), FormatUint (ID client), FormatUint (ID album),
           ''downloads'', zipFilename album]"

definition downloadURL :: "ZipService \<Rightarrow> string \<Rightarrow> string" where
  "downloadURL s filename = BaseDownloadURL (config s) @ ''/client/downloads/'' @ filename"

text \<open>
  \<^verbatim>\<open>CreateZipAsync\<close> returns the job id and the error, the requests it issued itself, and
  the requests of the goroutine it detached (none when it detached none).
\<close>

definition CreateZipAsync ::
  "ZipService \<Rightarrow> World \<Rightarrow> Album \<Rightarrow> Client
     \<Rightarrow> (string \<times> error option) \<times> event list \<times> event list" where
  "CreateZipAsync s w album client =
     (let bucket = Bucket (config s)
      in case S3_StatObject w bucket (zipKey s album client) of
           Inr (Some objectData) \<Rightarrow>
             (let (err, sent) = SendEmail w (EmailApiKey (config s))
                                  (Client.Name client) (Client.Email client)
                                  (FromName (config s)) (FromEmail (config s))
                                  (notification_data s (downloadURL s (zipFilename album))
                                     album client)
              in ((jobID album, err),
                  [EvStatObject bucket (zipKey s album client)] @ sent @
                    (case err of
                       Some e \<Rightarrow> [EvLogError ''failed to send email notification'']
                     | None \<Rightarrow> []),
                  []))
         | _ \<Rightarrow>
             ((jobID album, None),
              [EvStatObject bucket (zipKey s album client),
               EvGoProcessZip (zipKey s album client) (zipFilename album) album client],
              fst (processZip s w (zipKey s album client) (zipFilename album) album client)))"





definition cutoffTime :: "ZipService \<Rightarrow> World \<Rightarrow> time" where
  "cutoffTime s w = Time_AddDate w (Time_Now w) 0 0 (- ExpirationDays (config s))"


text \<open>
  \<^verbatim>\<open>StartCleanupRoutine\<close> and \<^verbatim>\<open>StopCleanupRoutine\<close>. Both have a value receiver: each
  call works on its own copy of the \<^verbatim>\<open>ZipService\<close> struct, and what it assigns to the
  copy's fields is gone when it returns. \<open>startCleanupBody\<close> is the body of
  \<^verbatim>\<open>StartCleanupRoutine\<close> and returns the copy as the body leaves it, which is the copy the
  goroutine holds; \<open>StartCleanupRoutine\<close> itself returns the run-time state only.
  \<^verbatim>\<open>time.NewTicker\<close> panics on an interval that is not positive, \<^verbatim>\<open>close\<close> on a closed
  channel.
\<close>

definition startCleanupBody ::
  "ZipService \<Rightarrow> int \<Rightarrow> Runtime \<Rightarrow> (ZipService \<times> Runtime) outcome" where
  "startCleanupBody s interval rt =
     (let s1 = s\<lparr>stopCleanup := length (chans rt)\<rparr>;
          rt1 = rt\<lparr>chans := chans rt @ [False]\<rparr>
      in if interval \<le> 0 then Panics
         else
           (let s2 = s1\<lparr>cleanupTicker := Some (length (tickers rt1))\<rparr>;
                rt2 = rt1\<lparr>tickers := tickers rt1 @ [False]\<rparr>
            in if length (waitgroups rt2) \<le> wg s2 then Panics
               else
                 Returns
                   (s2,
                    rt2\<lparr>waitgroups := (waitgroups rt2)[wg s2 := waitgroups rt2 ! wg s2 + 1],
                        goroutines := goroutines rt2 @ [s2]\<rparr>)))"

definition StartCleanupRoutine :: "ZipService \<Rightarrow> int \<Rightarrow> Runtime \<Rightarrow> Runtime outcome" where
  "StartCleanupRoutine s interval rt =
     (case startCleanupBody s interval rt of
        Returns (s', rt') \<Rightarrow> Returns rt'
      | Panics \<Rightarrow> Panics
      | Blocks \<Rightarrow> Blocks)"

text \<open>
  A cleanup goroutine whose stop channel is closed finishes the sweep it is in, stops
  its ticker, counts itself off its wait group and ends; one whose channel is open keeps
  running. (A running goroutine was counted on its wait group when it was started, so
  the counter it decrements is positive.)
\<close>

fun finishStopped :: "ZipService list \<Rightarrow> Runtime \<Rightarrow> Runtime" where
  "finishStopped [] rt = rt\<lparr>goroutines := []\<rparr>"
| "finishStopped (g # gs) rt =
     (let rt' = finishStopped gs rt
      in if stopCleanup g < length (chans rt) \<and> chans rt ! stopCleanup g
         then rt'\<lparr>tickers := (case cleanupTicker g of
                                 Some t \<Rightarrow> (tickers rt')[t := True]
                               | None \<Rightarrow> tickers rt'),
                  waitgroups := (waitgroups rt')[wg g := waitgroups rt' ! wg g - 1]\<rparr>
         else rt'\<lparr>goroutines := g # goroutines rt'\<rparr>)"

definition StopCleanupRoutine :: "ZipService \<Rightarrow> Runtime \<Rightarrow> Runtime outcome" where
  "StopCleanupRoutine s rt =
     (if cleanupTicker s \<noteq> None then
        (if length (chans rt) \<le> stopCleanup s \<or> chans rt ! stopCleanup s then Panics
         else
           (let rt1 = rt\<lparr>chans := (chans rt)[stopCleanup s := True]\<rparr>;
                rt2 = finishStopped (goroutines rt1) rt1
            in if length (waitgroups rt2) \<le> wg s then Panics
               else if waitgroups rt2 ! wg s = 0 then Returns rt2
               else Blocks))
      else Returns rt)"

section \<open>The cache builder (package cache)\<close>

record CacheCreatorService =
  awsBucket :: string
  awsRegion :: string
  clientsPhotoFolder :: string
  homePagePhotoFolder :: string
  maxCacheWorkers :: int

text \<open>
  The work handed to the pool (\<^verbatim>\<open>pool.Submit\<close>): the three closures of \<^verbatim>\<open>CreateCache\<close> and
  \<^verbatim>\<open>updateHomePageCache\<close>, each with the values it captured. What a sweep does while it
  scans: submit a task, or log an error. How a sweep ends: the process exits, the
  function returns from inside a loop, or it reaches the end and waits for the pool.
\<close>

datatype task =
    HomePageResize Object string
  | HeroBanner Client Album
  | Thumbnail Client Album Object

datatype cache_event = Submit task | LogError string

datatype sweep_end = Exited | Returned | Finished

text \<open>
  The calls by which a task regenerates a derived image. Their bodies fetch the
  original, resize and encode it and upload the result; they are not unfolded here.
\<close>

datatype regeneration =
    CreateHeroBanner Album
  | CreateThumbnail Album string
  | ResizeWork Object string

definition ensureBucketExists :: "CacheCreatorService \<Rightarrow> World \<Rightarrow> string \<Rightarrow> error option" where
  "ensureBucketExists c w bucketName =
     (case S3_BucketExists w bucketName of
        Inl e \<Rightarrow> Some e
      | Inr exists \<Rightarrow> if exists then None else S3_CreateBucket w bucketName)"

text \<open>The loop of \<^verbatim>\<open>updateHomePageCache\<close> over the originals of the home page.\<close>

fun homePageTasks :: "CacheCreatorService \<Rightarrow> World \<Rightarrow> Object list \<Rightarrow> cache_event list" where
  "homePageTasks c w [] = []"
| "homePageTasks c w (original # originals) =
     (let thumbnailKey = Join [homePagePhotoFolder c, ''thumbnail'', Base (Key original)]
      in case S3_StatObject w (awsBucket c) thumbnailKey of
           Inl e \<Rightarrow> LogError ''error retrieving metadata for thumbnail''
                      # homePageTasks c w originals
         | Inr None \<Rightarrow> Submit (HomePageResize original thumbnailKey)
                         # homePageTasks c w originals
         | Inr (Some thumbnailStat) \<Rightarrow>
             (if Before (LastModified thumbnailStat) (LastModified original)
              then Submit (HomePageResize original thumbnailKey) # homePageTasks c w originals
              else homePageTasks c w originals))"

definition updateHomePageCache ::
  "CacheCreatorService \<Rightarrow> World \<Rightarrow> error option \<times> cache_event list" where
  "updateHomePageCache c w =
     (case S3_List w (awsBucket c) (Join [homePagePhotoFolder c, ''original'']) of
        Inl e \<Rightarrow> (Some e, [])
      | Inr originals \<Rightarrow> (None, homePageTasks c w originals))"

definition getAlbumImageListing ::
  "CacheCreatorService \<Rightarrow> World \<Rightarrow> Album \<Rightarrow> error + Object list" where
  "getAlbumImageListing c w album =
     (let validExt = [''.jpg'', ''.jpeg''];
          key = Join [clientsPhotoFolder c, FormatUint (ClientID album), FormatUint (ID album),
                      ''originals'']
      in case S3_List w (awsBucket c) key of
           Inl e \<Rightarrow> Inl e
         | Inr objects \<Rightarrow>
             Inr (filter (\<lambda>obj. ToLower (Ext (Key obj)) \<in> set validExt) objects))"

definition thumbnailKey :: "CacheCreatorService \<Rightarrow> Album \<Rightarrow> string \<Rightarrow> string" where
  "thumbnailKey c album imageName =
     Join [clientsPhotoFolder c, FormatUint (ClientID album), FormatUint (ID album),
           ''thumbnails'', imageName]"

definition heroKey :: "CacheCreatorService \<Rightarrow> Album \<Rightarrow> string" where
  "heroKey c album =
     Join [clientsPhotoFolder c, FormatUint (ClientID album), FormatUint (ID album),
           ''hero-banner'', PosterImagePath album]"

definition originalKey :: "CacheCreatorService \<Rightarrow> Album \<Rightarrow> string" where
  "originalKey c album =
     Join [clientsPhotoFolder c, FormatUint (ClientID album), FormatUint (ID album),
           ''originals'', PosterImagePath album]"

definition doesThumbnailExist ::
  "CacheCreatorService \<Rightarrow> World \<Rightarrow> Album \<Rightarrow> Object \<Rightarrow> bool" where
  "doesThumbnailExist c w album original =
     (case S3_StatObject w (awsBucket c) (thumbnailKey c album (Base (Key original))) of
        Inl e \<Rightarrow> False
      | Inr None \<Rightarrow> False
      | Inr (Some stat) \<Rightarrow>
          (if Before (LastModified stat) (LastModified original) then False else True))"

definition doesHeroExist :: "CacheCreatorService \<Rightarrow> World \<Rightarrow> Album \<Rightarrow> bool" where
  "doesHeroExist c w album =
     (case S3_StatObject w (awsBucket c) (heroKey c album) of
        Inl e \<Rightarrow> False
      | Inr heroStat \<Rightarrow>
          (case S3_StatObject w (awsBucket c) (originalKey c album) of
             Inl e \<Rightarrow> False
           | Inr originalStat \<Rightarrow>
               (case originalStat of
                  None \<Rightarrow> False
                | Some originalMeta \<Rightarrow>
                    (case heroStat of
                       None \<Rightarrow> False
                     | Some heroMeta \<Rightarrow>
                         (if Before (LastModified heroMeta) (LastModified originalMeta)
                          then False else True)))))"

text \<open>What a worker of the pool does with a task.\<close>

fun runTask :: "CacheCreatorService \<Rightarrow> World \<Rightarrow> task \<Rightarrow> regeneration list" where
  "runTask c w (HeroBanner client album) =
     (if \<not> doesHeroExist c w album then [CreateHeroBanner album] else [])"
| "runTask c w (Thumbnail client album imageObj) =
     (if \<not> doesThumbnailExist c w album imageObj
      then [CreateThumbnail album (Key imageObj)] else [])"
| "runTask c w (HomePageResize original key) = [ResizeWork original key]"

text \<open>
  The loops of \<^verbatim>\<open>CreateCache\<close> over the albums of a client and over the clients. The
  flag says that the function returned from inside the loop.
\<close>

fun cacheAlbums ::
  "CacheCreatorService \<Rightarrow> World \<Rightarrow> Client \<Rightarrow> Album list \<Rightarrow> cache_event list \<times> bool" where
  "cacheAlbums c w client [] = ([], False)"
| "cacheAlbums c w client (album # albums) =
     (case getAlbumImageListing c w album of
        Inl e \<Rightarrow>
          ([Submit (HeroBanner client album),
            LogError ''error retrieving image listing for album''], True)
      | Inr albumImages \<Rightarrow>
          (let (evs, returned) = cacheAlbums c w client albums
           in (Submit (HeroBanner client album)
                 # map (\<lambda>imageObj. Submit (Thumbnail client album imageObj)) albumImages @ evs,
               returned)))"

fun cacheClients ::
  "CacheCreatorService \<Rightarrow> World \<Rightarrow> Client list \<Rightarrow> cache_event list \<times> bool" where
  "cacheClients c w [] = ([], False)"
| "cacheClients c w (client # clients) =
     (case Albums_GetAlbumList w (ID client) of
        Inl e \<Rightarrow> ([LogError ''error retrieving albums''], True)
      | Inr albums \<Rightarrow>
          (let (evs, returned) = cacheAlbums c w client albums
           in if returned then (evs, True)
              else (let (evs', returned') = cacheClients c w clients
                    in (evs @ evs', returned'))))"

definition CreateCache :: "CacheCreatorService \<Rightarrow> World \<Rightarrow> cache_event list \<times> sweep_end" where
  "CreateCache c w =
     (case ensureBucketExists c w (awsBucket c) of
        Some e \<Rightarrow> ([LogError ''error ensuring bucket exists. aborting''], Exited)
      | None \<Rightarrow>
          (case Clients_GetAll w of
             Inl e \<Rightarrow> ([LogError ''error retrieving clients from database''], Returned)
           | Inr clients \<Rightarrow>
               (let (err, home) = updateHomePageCache c w;
                    logged = (case err of
                                Some e \<Rightarrow> [LogError ''error updating home page cache'']
                              | None \<Rightarrow> []);
                    (evs, returned) = cacheClients c w clients
                in (home @ logged @ evs, if returned then Returned else Finished))))"

section \<open>The download handler (package clientaccess)\<close>

record ClientAccessController =
  bucket :: string
  clientPhotoFolder :: string

text \<open>
  What the handler writes: a text response with a status code, or the archive with its
  download headers (file name, length) and body. Indexing an empty slice would panic.
\<close>

datatype response =
    WriteText nat string
  | ZipFile string int string
  | HandlerPanic

definition DownloadZip ::
  "ClientAccessController \<Rightarrow> World \<Rightarrow> Client \<Rightarrow> string \<Rightarrow> response \<times> event list" where
  "DownloadZip c w client requested =
     (let filename = Base requested;
          parts = Split (TrimSuffix filename ''.zip'') ''-''
      in if parts = [] then (HandlerPanic, [])
         else
           (case Atoi (last parts) of
              None \<Rightarrow>
                (WriteText 400 ''Invalid download link'',
                 [EvLogError ''error parsing album ID from filename''])
            | Some albumID \<Rightarrow>
                (let key = Join [clientPhotoFolder c, FormatUint (ID client),
                                 FormatInt albumID, ''downloads'', filename]
                 in case S3_Get w (bucket c) key of
                      Inl e \<Rightarrow>
                        (WriteText 404 ''Download file not found'',
                         [EvGet (bucket c) key,
                          EvLogError ''error getting zip object from S3''])
                    | Inr object \<Rightarrow>
                        (ZipFile filename (Size object) (Body object),
                         [EvGet (bucket c) key, EvBodyClose key]))))"

section \<open>Notions used to state the properties\<close>

text \<open>A fetch request; whether an original gets an entry in the archive, and which.\<close>

definition is_get :: "event \<Rightarrow> bool" where
  "is_get e = (case e of EvGet b k \<Rightarrow> True | _ \<Rightarrow> False)"



text \<open>
  The log line of the archive loop for an original it could not add, and whether adding
  an original fails (the fetch, the creation of the entry or the copy).
\<close>

definition is_add_failure :: "event \<Rightarrow> bool" where
  "is_add_failure e = (e = EvLogError ''failed to add image to zip'')"



text \<open>
  The part of a requested file name that the download handler reads the album id from:
  the text after the last hyphen of the base name, a final ".zip" removed.
\<close>

definition trailing_segment :: "string \<Rightarrow> string" where
  "trailing_segment requested = last (Split (TrimSuffix (Base requested) ''.zip'') ''-'')"

text \<open>The requests that belong to building an archive.\<close>

definition is_build_event :: "event \<Rightarrow> bool" where
  "is_build_event e =
     (case e of
        EvPutStream b k t \<Rightarrow> True
      | EvList b k \<Rightarrow> True
      | EvGet b k \<Rightarrow> True
      | EvZipCreate n \<Rightarrow> True
      | EvCopy n \<Rightarrow> True
      | EvZipClose \<Rightarrow> True
      | EvStreamClose \<Rightarrow> True
      | EvStreamWait \<Rightarrow> True
      | EvGoProcessZip k f a c \<Rightarrow> True
      | _ \<Rightarrow> False)"

section \<open>Example values\<close>

text \<open>
  The scenario of the specification: client 3 owns album 7, "Spring Shoot"; no
  retention is configured; every collaborator answers without error; a day has 86400
  seconds.
\<close>

definition example_config :: ZipServiceConfig where
  "example_config =
     \<lparr>BaseDownloadURL = ''http://localhost:8080'', Bucket = ''photos'',
      ClientPhotoFolder = ''clients'', ExpirationDays = 0, EmailApiKey = ''key'',
      FromName = ''Adam Presley'', FromEmail = ''noreply@adampresleyphotography.com''\<rparr>"

definition positive_config :: ZipServiceConfig where
  "positive_config = example_config\<lparr>ExpirationDays := 30\<rparr>"

definition empty_runtime :: Runtime where
  "empty_runtime = \<lparr>chans = [], tickers = [], waitgroups = [], goroutines = []\<rparr>"

definition example_service :: ZipService where
  "example_service = fst (NewZipService example_config empty_runtime)"

definition example_album :: Album where
  "example_album =
     \<lparr>ID = 7, Album.Name = ''Spring Shoot'', PosterImagePath = ''a.jpg'', ClientID = 3\<rparr>"

definition example_client :: Client where
  "example_client = \<lparr>ID = 3, Client.Name = ''Carol'', Email = ''carol@example.com''\<rparr>"

definition example_world :: World where
  "example_world =
     \<lparr>S3_StatObject = (\<lambda>b k. Inr None),
      S3_List = (\<lambda>b k. Inr []),
      S3_Get = (\<lambda>b k. Inr \<lparr>Body = ''bytes of '' @ k, Size = 9 + int (length k)\<rparr>),
      S3_PutStream = (\<lambda>b k. None),
      S3_Delete = (\<lambda>b ks. None),
      S3_BucketExists = (\<lambda>b. Inr True),
      S3_CreateBucket = (\<lambda>b. None),
      Clients_GetAll = Inr [example_client],
      Albums_GetAlbumList = (\<lambda>c. if c = 3 then Inr [example_album] else Inr []),
      Email_Send = (\<lambda>k t d. None),
      Zip_Create = (\<lambda>n. None),
      Io_Copy = (\<lambda>n b. (b, None)),
      Zip_Close = None,
      Stream_Close = None,
      Stream_Wait = None,
      Time_Now = 1000000,
      Time_AddDate = (\<lambda>t y m d. t + 86400 * d)\<rparr>"

definition archived_world :: World where
  "archived_world =
     example_world\<lparr>S3_StatObject := (\<lambda>b k. Inr (Some \<lparr>LastModified = 999000\<rparr>))\<rparr>"

text \<open>An album of three originals of which the second cannot be fetched.\<close>

definition original_a :: Object where
  "original_a = \<lparr>LastModified = 10, Key = ''clients/3/7/originals/a.jpg'', Url = []\<rparr>"
definition original_b :: Object where
  "original_b = \<lparr>LastModified = 20, Key = ''clients/3/7/originals/b.jpg'', Url = []\<rparr>"
definition original_c :: Object where
  "original_c = \<lparr>LastModified = 30, Key = ''clients/3/7/originals/c.jpg'', Url = []\<rparr>"




text \<open>
  The run-time state after the example service has started its cleanup routine, and the
  copy of the service that the cleanup goroutine holds.
\<close>

definition started_copy :: ZipService where
  "started_copy = example_service\<lparr>cleanupTicker := Some 0, stopCleanup := 1\<rparr>"

definition started_runtime :: Runtime where
  "started_runtime =
     \<lparr>chans = [False, False], tickers = [False], waitgroups = [1],
      goroutines = [started_copy]\<rparr>"

text \<open>
  The cache builder of the example, and a store in which the thumbnail of the first
  original is as old as the original, that of the second is older than it, the third
  has none, and the hero banner is as old as the poster image.
\<close>

definition example_cache :: CacheCreatorService where
  "example_cache =
     \<lparr>awsBucket = ''photos'', awsRegion = ''us-central-1'', clientsPhotoFolder = ''clients'',
      homePagePhotoFolder = ''home-page'', maxCacheWorkers = 20\<rparr>"

definition thumbnails_world :: World where
  "thumbnails_world =
     example_world
       \<lparr>S3_StatObject := (\<lambda>b k.
          if k = ''clients/3/7/thumbnails/a.jpg'' then Inr (Some \<lparr>LastModified = 10\<rparr>)
          else if k = ''clients/3/7/thumbnails/b.jpg'' then Inr (Some \<lparr>LastModified = 19\<rparr>)
          else if k = ''clients/3/7/hero-banner/a.jpg'' then Inr (Some \<lparr>LastModified = 10\<rparr>)
          else if k = ''clients/3/7/originals/a.jpg'' then Inr (Some \<lparr>LastModified = 10\<rparr>)
          else Inr None)\<rparr>"

text \<open>
  Two clients with three albums, where listing the originals of the first album fails.
\<close>

definition second_album :: Album where
  "second_album =
     \<lparr>ID = 8, Album.Name = ''Autumn'', PosterImagePath = ''p.jpg'', ClientID = 3\<rparr>"

definition second_client :: Client where
  "second_client = \<lparr>ID = 4, Client.Name = ''Dave'', Email = ''dave@example.com''\<rparr>"

definition third_album :: Album where
  "third_album =
     \<lparr>ID = 9, Album.Name = ''Winter'', PosterImagePath = ''q.jpg'', ClientID = 4\<rparr>"

definition listing_fails_world :: World where
  "listing_fails_world =
     example_world
       \<lparr>Clients_GetAll := Inr [example_client, second_client],
        Albums_GetAlbumList := (\<lambda>c. if c = 3 then Inr [example_album, second_album]
                                      else if c = 4 then Inr [third_album] else Inr []),
        S3_List := (\<lambda>b k. if k = ''clients/3/7/originals'' then Inl (Err ''timeout'')
                           else Inr [])\<rparr>"

text \<open>The download handler, and a store that holds an object under album id 0.\<close>

definition example_controller :: ClientAccessController where
  "example_controller = \<lparr>bucket = ''photos'', clientPhotoFolder = ''clients''\<rparr>"

definition album_zero_world :: World where
  "album_zero_world =
     example_world
       \<lparr>S3_Get := (\<lambda>b k. if k = ''clients/3/0/downloads/a-0.zip''
                          then Inr \<lparr>Body = ''PK'', Size = 2\<rparr>
                          else Inl (Err ''NoSuchKey''))\<rparr>"

section \<open>Facts about the library functions\<close>

declare ReplaceAll.simps [simp del]
declare SplitFrom.simps [simp del]
declare FormatUint.simps [simp del]

lemma ReplaceAll_byte:
  "ReplaceAll s [a] [b] = map (\<lambda>c. if c = a then b else c) s"
proof (induction s)
  case Nil
  show ?case by (simp add: ReplaceAll.simps)
next
  case (Cons c cs)
  show ?case
    by (subst ReplaceAll.simps) (simp add: HasPrefix_def Cons.IH)
qed

lemma digit_val_digit_char: "d < 10 \<Longrightarrow> digit_val (digit_char d) = Some d"
proof -
  assume "d < 10"
  then have "d \<in> {0, 1, 2, 3, 4, 5, 6, 7, 8, 9}" by auto
  then show ?thesis by (auto simp: digit_val_def digit_char_def)
qed

lemma digits_value_append:
  "digits_value acc (xs @ ys) =
     (case digits_value acc xs of None \<Rightarrow> None | Some v \<Rightarrow> digits_value v ys)"
  by (induction xs arbitrary: acc) (auto split: option.splits)

lemma digits_value_FormatUint: "digits_value 0 (FormatUint n) = Some n"
proof (induction n rule: FormatUint.induct)
  case (1 n)
  show ?case
  proof (cases "n < 10")
    case True
    then show ?thesis by (subst FormatUint.simps) (simp add: digit_val_digit_char)
  next
    case False
    with 1 have IH: "digits_value 0 (FormatUint (n div 10)) = Some (n div 10)" by simp
    have "n mod 10 < 10" by simp
    then have d: "digit_val (digit_char (n mod 10)) = Some (n mod 10)"
      by (rule digit_val_digit_char)
    show ?thesis using False
      by (subst FormatUint.simps) (simp add: digits_value_append IH d)
  qed
qed

lemma FormatUint_no_leading_zero: "0 < n \<Longrightarrow> hd (FormatUint n) \<noteq> CHR ''0''"
proof (induction n rule: FormatUint.induct)
  case (1 n)
  show ?case
  proof (cases "n < 10")
    case True
    with 1(2) have "n \<in> {1, 2, 3, 4, 5, 6, 7, 8, 9}" by auto
    then show ?thesis by (subst FormatUint.simps) (auto simp: digit_char_def)
  next
    case False
    then have "0 < n div 10" by simp
    with 1 False have IH: "hd (FormatUint (n div 10)) \<noteq> CHR ''0''" by simp
    have ne: "FormatUint (n div 10) \<noteq> []" by (subst FormatUint.simps) simp
    show ?thesis using False IH ne
      by (subst FormatUint.simps) simp
  qed
qed

lemma FormatUint_3: "FormatUint 3 = ''3''"
  by (subst FormatUint.simps) (simp add: digit_char_def)

lemma FormatUint_7: "FormatUint 7 = ''7''"
  by (subst FormatUint.simps) (simp add: digit_char_def)

lemma example_zip_key:
  "Join [''clients'', ''3'', ''7'', ''downloads'', ''Spring-Shoot-7.zip''] =
     ''clients/3/7/downloads/Spring-Shoot-7.zip''"
  by code_simp

lemma example_service_config:
  "config example_service = example_config\<lparr>ExpirationDays := 7\<rparr>"
  by (simp add: example_service_def NewZipService_def example_config_def Let_def)

lemma example_album_fields:
  "ID example_album = 7" "Album.Name example_album = ''Spring Shoot''"
  "PosterImagePath example_album = ''a.jpg''" "ClientID example_album = 3"
  by (simp_all add: example_album_def)

lemma example_client_fields:
  "ID example_client = 3" "Client.Name example_client = ''Carol''"
  "Email example_client = ''carol@example.com''"
  by (simp_all add: example_client_def)

lemma example_jobID: "jobID example_album = ''Spring-Shoot-7''"
  by (simp add: jobID_def example_album_def ReplaceAll_byte FormatUint_7)

lemma example_zipKey:
  "zipKey example_service example_album example_client =
     ''clients/3/7/downloads/Spring-Shoot-7.zip''"
  using example_jobID
  by (simp add: zipKey_def zipFilename_def example_service_config example_config_def
      example_album_def example_client_def FormatUint_3 FormatUint_7 example_zip_key)

lemma CreateZipAsync_returns_jobID:
  "fst (fst (CreateZipAsync s w album client)) = jobID album"
  by (simp add: CreateZipAsync_def Let_def split: sum.splits option.splits prod.splits)

lemma CreateZipAsync_first_request:
  "hd (fst (snd (CreateZipAsync s w album client))) =
     EvStatObject (Bucket (config s)) (zipKey s album client)"
  by (simp add: CreateZipAsync_def Let_def split: sum.splits option.splits prod.splits)




lemma example_originals_key:
  "Join [''clients'', ''3'', ''7'', ''originals''] = ''clients/3/7/originals''"
  by code_simp

lemma Base_examples:
  "Base ''clients/3/7/originals/a.jpg'' = ''a.jpg''"
  "Base ''clients/3/7/originals/b.jpg'' = ''b.jpg''"
  "Base ''clients/3/7/originals/c.jpg'' = ''c.jpg''"
  by (simp_all add: Base_def)



lemma example_cache_keys:
  "Join [''clients'', ''3'', ''7'', ''thumbnails'', ''a.jpg''] = ''clients/3/7/thumbnails/a.jpg''"
  "Join [''clients'', ''3'', ''7'', ''thumbnails'', ''b.jpg''] = ''clients/3/7/thumbnails/b.jpg''"
  "Join [''clients'', ''3'', ''7'', ''thumbnails'', ''c.jpg''] = ''clients/3/7/thumbnails/c.jpg''"
  "Join [''clients'', ''3'', ''7'', ''hero-banner'', ''a.jpg''] = ''clients/3/7/hero-banner/a.jpg''"
  "Join [''clients'', ''3'', ''7'', ''originals'', ''a.jpg''] = ''clients/3/7/originals/a.jpg''"
  by code_simp+

lemma example_thumbnail_keys:
  "thumbnailKey example_cache example_album (Base (Key original_a)) = ''clients/3/7/thumbnails/a.jpg''"
  "thumbnailKey example_cache example_album (Base (Key original_b)) = ''clients/3/7/thumbnails/b.jpg''"
  "thumbnailKey example_cache example_album (Base (Key original_c)) = ''clients/3/7/thumbnails/c.jpg''"
  "heroKey example_cache example_album = ''clients/3/7/hero-banner/a.jpg''"
  "originalKey example_cache example_album = ''clients/3/7/originals/a.jpg''"
  by (simp_all add: thumbnailKey_def heroKey_def originalKey_def example_cache_def
      example_album_fields original_a_def original_b_def original_c_def Base_examples
      FormatUint_3 FormatUint_7 example_cache_keys)

lemma SplitFrom_not_empty: "SplitFrom cur s sep \<noteq> []"
proof (induction cur s sep rule: SplitFrom.induct)
  case (1 cur s sep)
  then show ?case by (subst SplitFrom.simps) simp
qed

lemma SplitFrom_last_free:
  "c \<notin> set cur \<Longrightarrow> c \<notin> set (last (SplitFrom cur s [c]))"
proof (induction cur s "[c]" rule: SplitFrom.induct)
  case (1 cur s)
  show ?case
  proof (cases "s = []")
    case True
    then show ?thesis using "1.prems" by (subst SplitFrom.simps) simp
  next
    case False
    then obtain x xs where s: "s = x # xs" by (cases s) auto
    show ?thesis
    proof (cases "x = c")
      case True
      then have hp: "HasPrefix s [c]" using s by (simp add: HasPrefix_def)
      have "c \<notin> set (last (SplitFrom [] (drop (length [c]) s) [c]))"
        using "1.hyps"(1) [OF _ hp] False by simp
      then show ?thesis
        using hp False SplitFrom_not_empty [of "[]" "drop (length [c]) s" "[c]"]
        by (subst SplitFrom.simps) simp
    next
      case x: False
      then have hp: "\<not> HasPrefix s [c]" using s by (simp add: HasPrefix_def)
      have "c \<notin> set (cur @ [hd s])" using "1.prems" x s by simp
      then have "c \<notin> set (last (SplitFrom (cur @ [hd s]) (tl s) [c]))"
        using "1.hyps"(2) [OF _ hp] False by simp
      then show ?thesis
        using hp False by (subst SplitFrom.simps) simp
    qed
  qed
qed

lemma Atoi_nonneg: "Atoi s = Some n \<Longrightarrow> CHR ''-'' \<notin> set s \<Longrightarrow> 0 \<le> n"
  by (cases s) (auto simp: Atoi_def Let_def split: option.splits if_splits)

lemma trailing_segment_no_hyphen: "CHR ''-'' \<notin> set (trailing_segment requested)"
  using SplitFrom_last_free [of "CHR ''-''" "[]"]
  by (simp add: trailing_segment_def Split_def)

lemma zero_segment: "trailing_segment ''a-0.zip'' = ''0''"
proof -
  have "Split ''a-0'' ''-'' = [''a'', ''0'']"
    by (simp add: Split_def SplitFrom.simps HasPrefix_def)
  then show ?thesis
    by (simp add: trailing_segment_def Base_def TrimSuffix_def HasSuffix_def)
qed

lemma Atoi_examples: "Atoi ''0'' = Some 0" "Atoi ''x'' = None" "Atoi ''7'' = Some 7"
  by (simp_all add: Atoi_def digit_val_def)

lemma zero_key:
  "Join [''clients'', ''3'', ''0'', ''downloads'', ''a-0.zip''] = ''clients/3/0/downloads/a-0.zip''"
  by code_simp

lemma FormatInt_0: "FormatInt 0 = ''0''"
  by (simp add: FormatInt_def FormatUint.simps digit_char_def)

section \<open>The job id\<close>

text \<open>
  C7. For every album and client, the job id that \<^verbatim>\<open>CreateZipAsync\<close> returns is the
  album name with every space replaced by a hyphen, then a hyphen, then the album id in
  decimal (a digit string whose value is the id, without a leading zero for a positive
  id). The album "Spring Shoot" with id 7 gives "Spring-Shoot-7". The archive's file
  name is the job id followed by ".zip": the first request is the existence check at
  the key that ends in that file name.
\<close>

theorem CreateZipAsync_jobID:
  "fst (fst (CreateZipAsync s w album client)) =
     map (\<lambda>c. if c = CHR '' '' then CHR ''-'' else c) (Album.Name album) @ ''-''
       @ FormatUint (ID album)
   \<and> digits_value 0 (FormatUint (ID album)) = Some (ID album)
   \<and> (0 < ID album \<longrightarrow> hd (FormatUint (ID album)) \<noteq> CHR ''0'')
   \<and> (Album.Name album = ''Spring Shoot'' \<and> ID album = 7 \<longrightarrow>
        fst (fst (CreateZipAsync s w album client)) = ''Spring-Shoot-7'')
   \<and> hd (fst (snd (CreateZipAsync s w album client))) =
        EvStatObject (Bucket (config s))
          (Join [ClientPhotoFolder (config s), FormatUint (ID client), FormatUint (ID album),
                 ''downloads'', fst (fst (CreateZipAsync s w album client)) @ ''.zip''])"
proof -
  have job: "fst (fst (CreateZipAsync s w album client)) =
      map (\<lambda>c. if c = CHR '' '' then CHR ''-'' else c) (Album.Name album) @ ''-''
        @ FormatUint (ID album)"
    by (simp add: CreateZipAsync_returns_jobID jobID_def ReplaceAll_byte)
  have ex: "Album.Name album = ''Spring Shoot'' \<and> ID album = 7 \<longrightarrow>
        fst (fst (CreateZipAsync s w album client)) = ''Spring-Shoot-7''"
    by (simp add: job FormatUint_7)
  have req: "hd (fst (snd (CreateZipAsync s w album client))) =
        EvStatObject (Bucket (config s))
          (Join [ClientPhotoFolder (config s), FormatUint (ID client), FormatUint (ID album),
                 ''downloads'', fst (fst (CreateZipAsync s w album client)) @ ''.zip''])"
    by (simp add: CreateZipAsync_first_request CreateZipAsync_returns_jobID zipKey_def
        zipFilename_def)
  show ?thesis
    using job ex req digits_value_FormatUint [of "ID album"]
      FormatUint_no_leading_zero [of "ID album"]
    by blast
qed

theorem CreateZipAsync_jobID_witness:
  "fst (fst (CreateZipAsync example_service example_world example_album example_client)) =
     ''Spring-Shoot-7''
   \<and> hd (fst (snd (CreateZipAsync example_service example_world example_album
                     example_client))) =
       EvStatObject ''photos'' ''clients/3/7/downloads/Spring-Shoot-7.zip''"
  using CreateZipAsync_jobID [of example_service example_world example_album example_client]
  by (simp add: example_album_def example_client_def FormatUint_3 FormatUint_7
      example_zip_key example_service_config example_config_def)

section \<open>The retention window\<close>

text \<open>
  C10. Constructing the archive service replaces a configured \<^verbatim>\<open>ExpirationDays\<close> that is
  zero or negative by 7 and keeps a positive one, leaving the rest of the configuration
  as it is. The retention of the constructed service is therefore positive; the cleanup
  cutoff is the current time moved back by that many days, and the notification's
  template data carries that number as \<open>expirationDays\<close>.
\<close>

theorem NewZipService_retention:
  "config (fst (NewZipService cfg rt)) =
     cfg\<lparr>ExpirationDays := (if ExpirationDays cfg \<le> 0 then 7 else ExpirationDays cfg)\<rparr>
   \<and> 0 < ExpirationDays (config (fst (NewZipService cfg rt)))
   \<and> cutoffTime (fst (NewZipService cfg rt)) w =
       Time_AddDate w (Time_Now w) 0 0
         (- (if ExpirationDays cfg \<le> 0 then 7 else ExpirationDays cfg))
   \<and> (''expirationDays'', AnyInt (if ExpirationDays cfg \<le> 0 then 7 else ExpirationDays cfg))
       \<in> set (notification_data (fst (NewZipService cfg rt)) url album client)"
  by (simp add: NewZipService_def Let_def cutoffTime_def notification_data_def)

theorem NewZipService_retention_witness:
  "ExpirationDays (config (fst (NewZipService example_config empty_runtime))) = 7
   \<and> ExpirationDays (config (fst (NewZipService positive_config empty_runtime))) = 30
   \<and> cutoffTime (fst (NewZipService example_config empty_runtime)) example_world = 395200"
  using NewZipService_retention [of example_config empty_runtime example_world]
    NewZipService_retention [of positive_config empty_runtime example_world]
  by (simp add: example_config_def positive_config_def example_world_def)

section \<open>An archive that already exists\<close>

text \<open>
  C2. When the existence check finds an object at the archive's key,
  \<^verbatim>\<open>CreateZipAsync\<close> detaches no build: beyond the existence check its only request is
  the notification email (and the log line if sending fails); no stream is opened,
  nothing is listed, fetched or written to a zip. The job id it returns does not depend
  on what the store holds, so it is the one returned by the call that started the
  build.
\<close>

theorem CreateZipAsync_existing_archive:
  assumes "S3_StatObject w (Bucket (config s)) (zipKey s album client) = Inr (Some objectData)"
  shows "snd (snd (CreateZipAsync s w album client)) = []
    \<and> fst (snd (CreateZipAsync s w album client)) =
        [EvStatObject (Bucket (config s)) (zipKey s album client),
         EvSendEmail (EmailApiKey (config s)) (Client.Name client) (Client.Email client)
           (FromName (config s)) (FromEmail (config s))
           (notification_data s (downloadURL s (zipFilename album)) album client)]
        @ (case snd (fst (CreateZipAsync s w album client)) of
             Some e \<Rightarrow> [EvLogError ''failed to send email notification'']
           | None \<Rightarrow> [])
    \<and> \<not> list_ex is_build_event
          (fst (snd (CreateZipAsync s w album client))
             @ snd (snd (CreateZipAsync s w album client)))
    \<and> fst (fst (CreateZipAsync s w album client)) =
        fst (fst (CreateZipAsync s w' album client))"
proof -
  have same: "fst (fst (CreateZipAsync s w album client)) =
      fst (fst (CreateZipAsync s w' album client))"
    by (simp add: CreateZipAsync_returns_jobID)
  have bg: "snd (snd (CreateZipAsync s w album client)) = []"
    using assms by (simp add: CreateZipAsync_def Let_def SendEmail_def)
  have evs: "fst (snd (CreateZipAsync s w album client)) =
        [EvStatObject (Bucket (config s)) (zipKey s album client),
         EvSendEmail (EmailApiKey (config s)) (Client.Name client) (Client.Email client)
           (FromName (config s)) (FromEmail (config s))
           (notification_data s (downloadURL s (zipFilename album)) album client)]
        @ (case snd (fst (CreateZipAsync s w album client)) of
             Some e \<Rightarrow> [EvLogError ''failed to send email notification'']
           | None \<Rightarrow> [])"
    using assms by (simp add: CreateZipAsync_def Let_def SendEmail_def)
  have nb: "\<not> list_ex is_build_event
          (fst (snd (CreateZipAsync s w album client))
             @ snd (snd (CreateZipAsync s w album client)))"
    by (subst evs, subst bg) (simp add: is_build_event_def split: option.splits)
  show ?thesis using same bg evs nb by blast
qed

theorem CreateZipAsync_existing_archive_witness:
  "S3_StatObject archived_world (Bucket (config example_service))
     (zipKey example_service example_album example_client) = Inr (Some \<lparr>LastModified = 999000\<rparr>)
   \<and> CreateZipAsync example_service archived_world example_album example_client =
       ((''Spring-Shoot-7'', None),
        [EvStatObject ''photos'' ''clients/3/7/downloads/Spring-Shoot-7.zip'',
         EvSendEmail ''key'' ''Carol'' ''carol@example.com'' ''Adam Presley''
           ''noreply@adampresleyphotography.com''
           [(''downloadURL'',
             AnyString ''http://localhost:8080/client/downloads/Spring-Shoot-7.zip''),
            (''name'', AnyString ''Carol''),
            (''albumName'', AnyString ''Spring Shoot''),
            (''expirationDays'', AnyInt 7)]],
        [])
   \<and> fst (fst (CreateZipAsync example_service archived_world example_album example_client)) =
       fst (fst (CreateZipAsync example_service example_world example_album example_client))"
proof -
  have found: "S3_StatObject archived_world (Bucket (config example_service))
     (zipKey example_service example_album example_client) = Inr (Some \<lparr>LastModified = 999000\<rparr>)"
    by (simp add: archived_world_def)
  have sent: "snd (fst (CreateZipAsync example_service archived_world example_album
      example_client)) = None"
    by (simp add: CreateZipAsync_def Let_def SendEmail_def archived_world_def
        example_world_def)
  show ?thesis
    using found sent
      CreateZipAsync_existing_archive [OF found, of example_world]
      CreateZipAsync_returns_jobID [of example_service archived_world example_album
        example_client]
    by (simp add: prod_eq_iff example_zipKey example_jobID example_service_config
        example_config_def example_client_fields example_album_fields
        notification_data_def downloadURL_def zipFilename_def)
qed

section \<open>A failing image does not stop the archive\<close>

lemma is_get_simps [simp]:
  "is_get (EvGet b k)" "\<not> is_get (EvLogError m)" "\<not> is_get (EvPutStream b k t)"
  "\<not> is_get (EvList b k)" "\<not> is_get EvZipClose" "\<not> is_get EvStreamClose"
  "\<not> is_get EvStreamWait" "\<not> is_get (EvSendEmail a1 a2 a3 a4 a5 d)"
  "\<not> is_get (EvZipCreate n)" "\<not> is_get (EvCopy n)" "\<not> is_get (EvBodyClose k)"
  by (simp_all add: is_get_def)



lemma addFile_no_close: "EvZipClose \<notin> set (fst (snd (addFile s w zw key)))"
  by (simp add: addFile_def Let_def split: sum.splits option.splits prod.splits)









lemma is_add_failure_simps [simp]:
  "\<not> is_add_failure (EvPutStream b k t)" "\<not> is_add_failure (EvList b k)"
  "\<not> is_add_failure EvZipClose" "\<not> is_add_failure EvStreamClose"
  "\<not> is_add_failure EvStreamWait" "\<not> is_add_failure (EvSendEmail a1 a2 a3 a4 a5 d)"
  "\<not> is_add_failure (EvLogError ''failed to close zip writer'')"
  "\<not> is_add_failure (EvLogError ''failed to close s3 stream writer'')"
  "\<not> is_add_failure (EvLogError ''failed to wait for s3 stream'')"
  "\<not> is_add_failure (EvLogError ''failed to send email notification'')"
  by (simp_all add: is_add_failure_def)



section \<open>Which archives a cleanup sweep deletes\<close>

















section \<open>Starting and stopping the cleanup routine\<close>

lemma example_service_fields:
  "cleanupTicker example_service = None" "stopCleanup example_service = 0"
  "wg example_service = 0"
  by (simp_all add: example_service_def NewZipService_def Let_def empty_runtime_def)

lemma example_initial_runtime:
  "snd (NewZipService example_config empty_runtime) =
     \<lparr>chans = [False], tickers = [], waitgroups = [0], goroutines = []\<rparr>"
  by (simp add: NewZipService_def Let_def empty_runtime_def)

text \<open>
  C4. A service built by \<^verbatim>\<open>NewZipService\<close> has no ticker, and
  \<^verbatim>\<open>StartCleanupRoutine\<close> does not give it one: the ticker and the new stop channel are
  stored in the method's own copy of the struct, which only the cleanup goroutine keeps.
  After a start with a positive interval the goroutine is running, its ticker is not
  stopped, its stop channel is open and its wait group counts one; calling
  \<^verbatim>\<open>StopCleanupRoutine\<close> on the service then returns at once and leaves all of this as it
  is. The stop signal is not closed, nothing is waited for and the ticker keeps running.
\<close>

theorem StopCleanupRoutine_after_start:
  assumes "0 < interval"
  shows "\<exists>g rt1.
      StartCleanupRoutine (fst (NewZipService cfg rt)) interval (snd (NewZipService cfg rt)) =
        Returns rt1
      \<and> goroutines rt1 = goroutines rt @ [g]
      \<and> cleanupTicker g = Some (length (tickers rt))
      \<and> \<not> tickers rt1 ! length (tickers rt)
      \<and> \<not> chans rt1 ! stopCleanup g
      \<and> waitgroups rt1 ! wg g = 1
      \<and> cleanupTicker (fst (NewZipService cfg rt)) = None
      \<and> StopCleanupRoutine (fst (NewZipService cfg rt)) rt1 = Returns rt1"
  using assms
  by (simp add: StartCleanupRoutine_def startCleanupBody_def NewZipService_def Let_def
      StopCleanupRoutine_def nth_append)

theorem StopCleanupRoutine_after_start_witness:
  "(0::int) < 86400000000000
   \<and> StartCleanupRoutine example_service 86400000000000
        (snd (NewZipService example_config empty_runtime)) = Returns started_runtime
   \<and> StopCleanupRoutine example_service started_runtime = Returns started_runtime
   \<and> goroutines started_runtime = [started_copy]
   \<and> StopCleanupRoutine started_copy started_runtime =
       Returns \<lparr>chans = [False, True], tickers = [True], waitgroups = [0], goroutines = []\<rparr>"
proof -
  have pos: "(0::int) < 86400000000000" by simp
  have start: "StartCleanupRoutine example_service 86400000000000
        (snd (NewZipService example_config empty_runtime)) = Returns started_runtime"
    by (simp add: StartCleanupRoutine_def startCleanupBody_def example_initial_runtime
        example_service_fields started_runtime_def started_copy_def Let_def)
  have stop: "StopCleanupRoutine example_service started_runtime = Returns started_runtime"
    by (simp add: StopCleanupRoutine_def example_service_fields)
  have intended: "StopCleanupRoutine started_copy started_runtime =
       Returns \<lparr>chans = [False, True], tickers = [True], waitgroups = [0], goroutines = []\<rparr>"
    by (simp add: StopCleanupRoutine_def started_runtime_def started_copy_def
        example_service_fields Let_def)
  have g: "goroutines started_runtime = [started_copy]"
    by (simp add: started_runtime_def)
  show ?thesis
    using pos start stop intended g
      StopCleanupRoutine_after_start [OF pos, of example_config empty_runtime]
    by blast
qed

section \<open>The freshness check of the cache builder\<close>

text \<open>
  C1. The check for a thumbnail answers "exists" exactly when the store returns metadata
  for the thumbnail's key and its last-modified time is not before that of the
  original, equal times included. The check for a hero banner answers "exists" exactly
  when the store returns metadata for the banner and for the poster original and the
  banner's time is not before the original's. The task of a thumbnail or a banner
  regenerates it exactly when the check answers "does not exist": when the derived
  object is absent, cannot be read, or is strictly older.
\<close>

theorem freshness_check:
  "(doesThumbnailExist c w album original \<longleftrightarrow>
      (\<exists>stat. S3_StatObject w (awsBucket c) (thumbnailKey c album (Base (Key original))) =
                 Inr (Some stat)
              \<and> LastModified original \<le> LastModified stat))
   \<and> (doesHeroExist c w album \<longleftrightarrow>
      (\<exists>heroMeta originalMeta.
          S3_StatObject w (awsBucket c) (heroKey c album) = Inr (Some heroMeta)
        \<and> S3_StatObject w (awsBucket c) (originalKey c album) = Inr (Some originalMeta)
        \<and> LastModified originalMeta \<le> LastModified heroMeta))
   \<and> (runTask c w (Thumbnail client album original) = [] \<longleftrightarrow>
        doesThumbnailExist c w album original)
   \<and> (runTask c w (Thumbnail client album original) = [CreateThumbnail album (Key original)]
        \<longleftrightarrow> \<not> doesThumbnailExist c w album original)
   \<and> (runTask c w (HeroBanner client album) = [] \<longleftrightarrow> doesHeroExist c w album)
   \<and> (runTask c w (HeroBanner client album) = [CreateHeroBanner album]
        \<longleftrightarrow> \<not> doesHeroExist c w album)"
proof -
  have t: "doesThumbnailExist c w album original \<longleftrightarrow>
      (\<exists>stat. S3_StatObject w (awsBucket c) (thumbnailKey c album (Base (Key original))) =
                 Inr (Some stat)
              \<and> LastModified original \<le> LastModified stat)"
    by (auto simp: doesThumbnailExist_def Before_def split: sum.splits option.splits)
  have h: "doesHeroExist c w album \<longleftrightarrow>
      (\<exists>heroMeta originalMeta.
          S3_StatObject w (awsBucket c) (heroKey c album) = Inr (Some heroMeta)
        \<and> S3_StatObject w (awsBucket c) (originalKey c album) = Inr (Some originalMeta)
        \<and> LastModified originalMeta \<le> LastModified heroMeta)"
    by (auto simp: doesHeroExist_def Before_def split: sum.splits option.splits)
  show ?thesis
    using t h by simp
qed

theorem freshness_check_witness:
  "LastModified original_a = 10
   \<and> S3_StatObject thumbnails_world (awsBucket example_cache)
        (thumbnailKey example_cache example_album (Base (Key original_a))) =
        Inr (Some \<lparr>LastModified = 10\<rparr>)
   \<and> doesThumbnailExist example_cache thumbnails_world example_album original_a
   \<and> runTask example_cache thumbnails_world (Thumbnail example_client example_album original_a) = []
   \<and> LastModified original_b = 20
   \<and> S3_StatObject thumbnails_world (awsBucket example_cache)
        (thumbnailKey example_cache example_album (Base (Key original_b))) =
        Inr (Some \<lparr>LastModified = 19\<rparr>)
   \<and> runTask example_cache thumbnails_world (Thumbnail example_client example_album original_b) =
        [CreateThumbnail example_album (Key original_b)]
   \<and> S3_StatObject thumbnails_world (awsBucket example_cache)
        (thumbnailKey example_cache example_album (Base (Key original_c))) = Inr None
   \<and> runTask example_cache thumbnails_world (Thumbnail example_client example_album original_c) =
        [CreateThumbnail example_album (Key original_c)]
   \<and> doesHeroExist example_cache thumbnails_world example_album
   \<and> runTask example_cache thumbnails_world (HeroBanner example_client example_album) = []"
proof -
  have st: "S3_StatObject thumbnails_world = (\<lambda>b k.
          if k = ''clients/3/7/thumbnails/a.jpg'' then Inr (Some \<lparr>LastModified = 10\<rparr>)
          else if k = ''clients/3/7/thumbnails/b.jpg'' then Inr (Some \<lparr>LastModified = 19\<rparr>)
          else if k = ''clients/3/7/hero-banner/a.jpg'' then Inr (Some \<lparr>LastModified = 10\<rparr>)
          else if k = ''clients/3/7/originals/a.jpg'' then Inr (Some \<lparr>LastModified = 10\<rparr>)
          else Inr None)"
    by (simp add: thumbnails_world_def)
  have lm: "LastModified original_a = 10" "LastModified original_b = 20"
    "LastModified original_c = 30"
    by (simp_all add: original_a_def original_b_def original_c_def)
  show ?thesis
    using freshness_check [of example_cache thumbnails_world example_album original_a example_client]
      freshness_check [of example_cache thumbnails_world example_album original_b example_client]
      freshness_check [of example_cache thumbnails_world example_album original_c example_client]
    by (simp add: example_thumbnail_keys st lm)
qed

section \<open>A failing album listing ends the sweep\<close>

text \<open>
  C5. When the listing of the originals of a client's first album fails, the first
  client being the first of the sweep, the sweep submits the hero-banner task of that
  album, logs the error and returns: no task of the client's other albums and none of
  any later client is submitted, and the pool is not awaited. So a failing album
  listing does end the sweep, where the specification has it continue.
\<close>

theorem CreateCache_listing_failure:
  assumes "ensureBucketExists c w (awsBucket c) = None"
    and "Clients_GetAll w = Inr (client # clients)"
    and "Albums_GetAlbumList w (ID client) = Inr (album # albums)"
    and "getAlbumImageListing c w album = Inl e"
  shows "CreateCache c w =
           (snd (updateHomePageCache c w)
              @ (case fst (updateHomePageCache c w) of
                   Some e \<Rightarrow> [LogError ''error updating home page cache'']
                 | None \<Rightarrow> [])
              @ [Submit (HeroBanner client album),
                 LogError ''error retrieving image listing for album''],
            Returned)"
  using assms by (simp add: CreateCache_def split_def Let_def)

theorem CreateCache_listing_failure_witness:
  "getAlbumImageListing example_cache listing_fails_world example_album = Inl (Err ''timeout'')
   \<and> Albums_GetAlbumList listing_fails_world (ID example_client) =
       Inr [example_album, second_album]
   \<and> Clients_GetAll listing_fails_world = Inr [example_client, second_client]
   \<and> CreateCache example_cache listing_fails_world =
       ([Submit (HeroBanner example_client example_album),
         LogError ''error retrieving image listing for album''], Returned)"
proof -
  have b: "ensureBucketExists example_cache listing_fails_world (awsBucket example_cache) = None"
    by (simp add: ensureBucketExists_def listing_fails_world_def example_world_def)
  have c: "Clients_GetAll listing_fails_world = Inr (example_client # [second_client])"
    by (simp add: listing_fails_world_def)
  have a: "Albums_GetAlbumList listing_fails_world (ID example_client) =
      Inr (example_album # [second_album])"
    by (simp add: listing_fails_world_def example_client_fields)
  have l: "getAlbumImageListing example_cache listing_fails_world example_album =
      Inl (Err ''timeout'')"
    by (simp add: getAlbumImageListing_def listing_fails_world_def example_cache_def
        example_album_fields FormatUint_3 FormatUint_7 example_originals_key)
  have home_key: "Join [''home-page'', ''original''] = ''home-page/original''"
    by code_simp
  have h: "updateHomePageCache example_cache listing_fails_world = (None, [])"
    by (simp add: updateHomePageCache_def listing_fails_world_def example_cache_def home_key)
  show ?thesis
    using CreateCache_listing_failure [OF b c a l] c a l
    by (simp add: h)
qed

section \<open>The album id in a download file name\<close>

lemma album_zero_run:
  "DownloadZip example_controller album_zero_world example_client ''a-0.zip'' =
     (ZipFile ''a-0.zip'' 2 ''PK'',
      [EvGet ''photos'' ''clients/3/0/downloads/a-0.zip'',
       EvBodyClose ''clients/3/0/downloads/a-0.zip''])"
proof -
  have b: "Base ''a-0.zip'' = ''a-0.zip''" by (simp add: Base_def)
  have sp: "Split (TrimSuffix ''a-0.zip'' ''.zip'') ''-'' = [''a'', ''0'']"
    by (simp add: Split_def SplitFrom.simps HasPrefix_def TrimSuffix_def HasSuffix_def)
  show ?thesis
    by (simp add: DownloadZip_def b sp Atoi_examples example_controller_def
        example_client_fields FormatUint_3 FormatInt_0 zero_key album_zero_world_def Let_def)
qed

text \<open>
  C9, as amended. The handler never panics on a file name. It takes the text after the
  last hyphen of the base name, a final ".zip" removed, and answers 400 without any
  request to the store whenever \<^verbatim>\<open>strconv.Atoi\<close> rejects that text. It serves an archive
  only when the text parses as an integer, which is then never negative but may be
  zero, and the store returns an object at the key built from the client's id, that
  integer and the base name; and whenever both hold it serves that object.
\<close>

theorem DownloadZip_validation:
  "fst (DownloadZip c w client requested) \<noteq> HandlerPanic
   \<and> (Atoi (trailing_segment requested) = None \<longrightarrow>
        DownloadZip c w client requested =
          (WriteText 400 ''Invalid download link'',
           [EvLogError ''error parsing album ID from filename'']))
   \<and> (\<forall>name size body.
        fst (DownloadZip c w client requested) = ZipFile name size body \<longrightarrow>
        (\<exists>albumID. Atoi (trailing_segment requested) = Some albumID
           \<and> 0 \<le> albumID
           \<and> name = Base requested
           \<and> S3_Get w (bucket c)
                (Join [clientPhotoFolder c, FormatUint (ID client), FormatInt albumID,
                       ''downloads'', Base requested]) = Inr \<lparr>Body = body, Size = size\<rparr>))
   \<and> (\<forall>albumID object.
        Atoi (trailing_segment requested) = Some albumID
        \<and> S3_Get w (bucket c)
             (Join [clientPhotoFolder c, FormatUint (ID client), FormatInt albumID,
                    ''downloads'', Base requested]) = Inr object \<longrightarrow>
        fst (DownloadZip c w client requested) =
          ZipFile (Base requested) (Size object) (Body object))"
proof -
  have ne: "Split (TrimSuffix (Base requested) ''.zip'') ''-'' \<noteq> []"
    by (simp add: Split_def SplitFrom_not_empty)
  have p: "fst (DownloadZip c w client requested) \<noteq> HandlerPanic"
    using ne by (simp add: DownloadZip_def Let_def split: option.splits sum.splits)
  have r: "Atoi (trailing_segment requested) = None \<longrightarrow>
        DownloadZip c w client requested =
          (WriteText 400 ''Invalid download link'',
           [EvLogError ''error parsing album ID from filename''])"
    using ne by (simp add: DownloadZip_def Let_def trailing_segment_def)
  have s: "\<forall>name size body.
        fst (DownloadZip c w client requested) = ZipFile name size body \<longrightarrow>
        (\<exists>albumID. Atoi (trailing_segment requested) = Some albumID
           \<and> 0 \<le> albumID
           \<and> name = Base requested
           \<and> S3_Get w (bucket c)
                (Join [clientPhotoFolder c, FormatUint (ID client), FormatInt albumID,
                       ''downloads'', Base requested]) = Inr \<lparr>Body = body, Size = size\<rparr>)"
    using ne Atoi_nonneg [OF _ trailing_segment_no_hyphen [of requested]]
    by (auto simp: DownloadZip_def Let_def trailing_segment_def
        split: option.splits sum.splits)
  have t: "\<forall>albumID object.
        Atoi (trailing_segment requested) = Some albumID
        \<and> S3_Get w (bucket c)
             (Join [clientPhotoFolder c, FormatUint (ID client), FormatInt albumID,
                    ''downloads'', Base requested]) = Inr object \<longrightarrow>
        fst (DownloadZip c w client requested) =
          ZipFile (Base requested) (Size object) (Body object)"
    using ne by (simp add: DownloadZip_def Let_def trailing_segment_def)
  show ?thesis using p r s t by blast
qed

theorem DownloadZip_validation_witness:
  "Atoi (trailing_segment ''Spring-Shoot-x.zip'') = None
   \<and> DownloadZip example_controller album_zero_world example_client ''Spring-Shoot-x.zip'' =
       (WriteText 400 ''Invalid download link'',
        [EvLogError ''error parsing album ID from filename''])
   \<and> fst (DownloadZip example_controller album_zero_world example_client ''a-0.zip'') =
       ZipFile ''a-0.zip'' 2 ''PK''
   \<and> Atoi (trailing_segment ''a-0.zip'') = Some 0"
proof -
  have seg: "trailing_segment ''Spring-Shoot-x.zip'' = ''x''"
    by (simp add: trailing_segment_def Base_def TrimSuffix_def HasSuffix_def Split_def
        SplitFrom.simps HasPrefix_def)
  have none: "Atoi (trailing_segment ''Spring-Shoot-x.zip'') = None"
    by (simp add: seg Atoi_examples)
  have served: "fst (DownloadZip example_controller album_zero_world example_client ''a-0.zip'') =
       ZipFile ''a-0.zip'' 2 ''PK''"
    by (simp add: album_zero_run)
  have z: "Atoi (trailing_segment ''a-0.zip'') = Some 0"
    by (simp add: zero_segment Atoi_examples)
  show ?thesis
    using none served z
      DownloadZip_validation [of example_controller album_zero_world example_client
        "''Spring-Shoot-x.zip''"]
    by blast
qed

text \<open>
  C9 with "positive integer" fails. For the file name "a-0.zip" the trailing
  segment is "0",
  which parses as the integer 0 and is not positive; the handler does not reject the
  request but fetches the object at the key of album 0 and serves it if the store has
  one.
\<close>

theorem DownloadZip_zero_served:
  "trailing_segment ''a-0.zip'' = ''0''
   \<and> Atoi ''0'' = Some 0
   \<and> \<not> (0::int) < 0
   \<and> DownloadZip example_controller album_zero_world example_client ''a-0.zip'' =
       (ZipFile ''a-0.zip'' 2 ''PK'',
        [EvGet ''photos'' ''clients/3/0/downloads/a-0.zip'',
         EvBodyClose ''clients/3/0/downloads/a-0.zip''])"
  by (simp add: zero_segment Atoi_examples album_zero_run)

end
